theory Spec2Isabelle
  imports Main
begin

section \<open>Exceptions and the external world\<close>

text \<open>
  The two scripts \<^verbatim>\<open>pull_tweets.py\<close> and \<^verbatim>\<open>pull_text.py\<close> are straight-line
  programs: enumerate, loop with a \<^verbatim>\<open>try\<close>/\<^verbatim>\<open>except\<close>, write a CSV file. Every
  call that can raise returns a sum, \<open>Inl\<close> carrying the exception; an exception that
  no handler catches ends the script and is the script's result.
\<close>

datatype exn =
    KeyError
  | TypeError
  | TweepError
  | RequestException
  | UnidentifiedImageError
  | TesseractError
  | OSError

text \<open>
  JSON values, as \<^verbatim>\<open>tweet._json\<close> holds them. A JSON object is the list of its
  items; a key is looked up with \<open>map_of\<close>.
\<close>

datatype json =
    JNull
  | JBool bool
  | JNum int
  | JStr string
  | JList "json list"
  | JDict "(string \<times> json) list"

type_synonym media_item = "(string \<times> json) list"

text \<open>
  What line 27 of \<^verbatim>\<open>pull_tweets.py\<close> reads of a tweet: the key \<^verbatim>\<open>entities\<close> of the
  payload and the key \<^verbatim>\<open>media\<close> below it. A key that is absent is \<open>None\<close>. The value
  under \<^verbatim>\<open>media\<close> is a list of JSON objects, null, or something that is neither.
\<close>

datatype media_value =
    MediaList "media_item list"
  | MediaNull
  | MediaNotList

record entities_obj =
  media :: "media_value option"

record tweet =
  entities :: "entities_obj option"

text \<open>
  \<^verbatim>\<open>tweepy.Cursor(api.user_timeline, ...).items()\<close>: the tweets it yields, and whether
  the iteration then ends or raises (the service cannot be reached or refuses the
  credentials).
\<close>

datatype 'a cursor =
    Exhausted "'a list"
  | Raises "'a list" exn

text \<open>
  A CSV file is kept as its data rows, each a list of cells; the header line is not
  modelled. A Series cell is a JSON value or NaN (\<open>None\<close>).
\<close>

datatype cell =
    Idx nat
  | Val "json option"
  | Txt string

type_synonym csv_file = "cell list list"

record disk =
  files :: "string \<Rightarrow> csv_file option"
  writable :: "string \<Rightarrow> bool"

record response =
  content :: string

text \<open>
  What \<^verbatim>\<open>pull_text.py\<close> calls outside the repository: \<^verbatim>\<open>pd.read_csv\<close> of the URL
  file (the column \<^verbatim>\<open>images\<close>), \<^verbatim>\<open>requests.get\<close>, \<^verbatim>\<open>Image.open\<close> on the bytes of a
  response and \<^verbatim>\<open>pytesseract.image_to_string\<close>.
\<close>

record 'img ocr_env =
  read_csv :: "exn + string list"
  requests_get :: "string \<Rightarrow> exn + response"
  Image_open :: "string \<Rightarrow> exn + 'img"
  image_to_string :: "'img \<Rightarrow> exn + string"

section \<open>The sink\<close>

definition to_csv :: "string \<Rightarrow> csv_file \<Rightarrow> disk \<Rightarrow> exn + disk" where
  \<comment> \<open>opens the path for writing (mode \<^verbatim>\<open>w\<close>), which replaces the file that is there\<close>
  "to_csv path rows d =
     (if writable d path then Inr (d\<lparr>files := (files d)(path := Some rows)\<rparr>)
      else Inl OSError)"

definition series_rows :: "json option list \<Rightarrow> csv_file" where
  \<comment> \<open>\<^verbatim>\<open>Series.to_csv(path)\<close>: \<^verbatim>\<open>index=True\<close> is the default, each row is index, value\<close>
  "series_rows s = map (\<lambda>(i, v). [Idx i, Val v]) (enumerate 0 s)"

definition frame_rows :: "string list \<Rightarrow> csv_file" where
  \<comment> \<open>\<^verbatim>\<open>pd.DataFrame(respondent_info).to_csv(path, index=False)\<close>: one column\<close>
  "frame_rows respondent_info = map (\<lambda>image_text. [Txt image_text]) respondent_info"

section \<open>pull\_tweets.py\<close>

definition image_urls_path :: string where
  "image_urls_path = ''C:/Users/Rober/DATS_6103/project_2/data/cares_bot_image_urls.csv''"

fun scrape :: "'a cursor \<Rightarrow> exn + 'a list" where
  \<comment> \<open>lines 15 to 19: an exception of the cursor is not caught\<close>
  "scrape (Exhausted ts) = Inr ts"
| "scrape (Raises ts e) = Inl e"

fun pull_records :: "media_value \<Rightarrow> exn + media_item list" where
  \<comment> \<open>pandas: a record path must lead to a list or to null\<close>
  "pull_records (MediaList recs) = Inr recs"
| "pull_records MediaNull = Inr []"
| "pull_records MediaNotList = Inl TypeError"

definition json_normalize :: "tweet \<Rightarrow> exn + media_item list" where
  \<comment> \<open>\<^verbatim>\<open>pd.json_normalize(tweet._json, ["entities", "media"])\<close>: the rows of the frame\<close>
  "json_normalize t =
     (case entities t of
        None \<Rightarrow> Inl KeyError
      | Some e \<Rightarrow>
          (case media e of
             None \<Rightarrow> Inl KeyError
           | Some m \<Rightarrow> pull_records m))"

fun flat_value :: "json option \<Rightarrow> json option" where
  \<comment> \<open>a nested object is flattened into dotted column names, its own key is no column\<close>
  "flat_value None = None"
| "flat_value (Some (JDict kvs)) = None"
| "flat_value (Some v) = Some v"

definition column :: "string \<Rightarrow> media_item list \<Rightarrow> exn + json option list" where
  \<comment> \<open>\<^verbatim>\<open>frame[key]\<close>: a column exists when a row has the key; other rows hold NaN\<close>
  "column key recs =
     (let cells = map (\<lambda>r. flat_value (map_of r key)) recs
      in if list_ex (\<lambda>c. c \<noteq> None) cells then Inr cells else Inl KeyError)"

definition media_url :: "tweet \<Rightarrow> exn + json option list" where
  "media_url t =
     (case json_normalize t of
        Inl e \<Rightarrow> Inl e
      | Inr recs \<Rightarrow> column ''media_url'' recs)"

fun media_loop :: "tweet list \<Rightarrow> json option list \<Rightarrow> exn + json option list" where
  \<comment> \<open>lines 25 to 32: \<^verbatim>\<open>except KeyError: continue\<close>\<close>
  "media_loop [] cares_bot = Inr cares_bot"
| "media_loop (t # cares_bot_tweets) cares_bot =
     (case media_url t of
        Inr col \<Rightarrow> media_loop cares_bot_tweets (cares_bot @ col)
      | Inl e \<Rightarrow>
          if e = KeyError then media_loop cares_bot_tweets cares_bot else Inl e)"

definition pull_tweets :: "tweet cursor \<Rightarrow> disk \<Rightarrow> exn option \<times> disk" where
  "pull_tweets timeline d =
     (case scrape timeline of
        Inl e \<Rightarrow> (Some e, d)
      | Inr cares_bot_tweets \<Rightarrow>
          (case media_loop cares_bot_tweets [] of
             Inl e \<Rightarrow> (Some e, d)
           | Inr cares_bot \<Rightarrow>
               (case to_csv image_urls_path (series_rows cares_bot) d of
                  Inl e \<Rightarrow> (Some e, d)
                | Inr d' \<Rightarrow> (None, d'))))"

section \<open>pull\_text.py\<close>

definition survey_data_path :: string where
  "survey_data_path = ''C:/Users/Rober/DATS_6103/project_2/data/cares_bot_survey_data.csv''"

fun series_apply :: "('a \<Rightarrow> exn + 'b) \<Rightarrow> 'a list \<Rightarrow> exn + 'b list" where
  \<comment> \<open>\<^verbatim>\<open>Series.apply\<close>: the function is called on each element in turn, outside any handler\<close>
  "series_apply f [] = Inr []"
| "series_apply f (x # xs) =
     (case f x of
        Inl e \<Rightarrow> Inl e
      | Inr y \<Rightarrow>
          (case series_apply f xs of
             Inl e \<Rightarrow> Inl e
           | Inr ys \<Rightarrow> Inr (y # ys)))"

definition replace :: "char \<Rightarrow> char \<Rightarrow> string \<Rightarrow> string" where
  \<comment> \<open>\<^verbatim>\<open>str.replace\<close> with a pattern and a replacement of one character each\<close>
  "replace old new s = map (\<lambda>c. if c = old then new else c) s"

definition ocr_item :: "'img ocr_env \<Rightarrow> response \<Rightarrow> exn + string" where
  \<comment> \<open>lines 22 and 23, the body of the \<^verbatim>\<open>try\<close>; \<open>img\<close> is the loop variable \<^verbatim>\<open>image\<close>\<close>
  "ocr_item env img =
     (case Image_open env (content img) of
        Inl e \<Rightarrow> Inl e
      | Inr opened_image \<Rightarrow>
          (case image_to_string env opened_image of
             Inl e \<Rightarrow> Inl e
           | Inr s \<Rightarrow> Inr (replace (CHR 0x0A) CHR '' '' s)))"

fun ocr_loop ::
  "'img ocr_env \<Rightarrow> (nat \<times> response) list \<Rightarrow> string list \<Rightarrow> nat list \<Rightarrow> string list \<times> nat list"
where
  \<comment> \<open>lines 20 to 28: the bare \<^verbatim>\<open>except\<close> catches every exception of the body\<close>
  "ocr_loop env [] respondent_info errors = (respondent_info, errors)"
| "ocr_loop env ((index, img) # rest) respondent_info errors =
     (case ocr_item env img of
        Inr image_text \<Rightarrow> ocr_loop env rest (respondent_info @ [image_text]) errors
      | Inl e \<Rightarrow> ocr_loop env rest respondent_info (errors @ [index]))"

definition pull_text :: "'img ocr_env \<Rightarrow> disk \<Rightarrow> exn option \<times> disk" where
  "pull_text env d =
     (case read_csv env of
        Inl e \<Rightarrow> (Some e, d)
      | Inr images \<Rightarrow>
          (case series_apply (requests_get env) images of
             Inl e \<Rightarrow> (Some e, d)
           | Inr image_requests \<Rightarrow>
               (case ocr_loop env (enumerate 0 image_requests) [] [] of
                  (respondent_info, errors) \<Rightarrow>
                    (case to_csv survey_data_path (frame_rows respondent_info) d of
                       Inl e \<Rightarrow> (Some e, d)
                     | Inr d' \<Rightarrow> (None, d')))))"

section \<open>The loops as list functions\<close>

text \<open>
  What the loops are expected to compute, written without accumulators: the texts of
  the items that succeed, the positions of the items that fail, and the URL cells a
  tweet contributes.
\<close>

definition succeeded :: "'img ocr_env \<Rightarrow> (nat \<times> response) list \<Rightarrow> string list" where
  "succeeded env items =
     concat (map (\<lambda>(index, img). case ocr_item env img of Inr s \<Rightarrow> [s] | Inl e \<Rightarrow> []) items)"

definition failed :: "'img ocr_env \<Rightarrow> (nat \<times> response) list \<Rightarrow> nat list" where
  "failed env items =
     concat (map (\<lambda>(index, img). case ocr_item env img of Inr s \<Rightarrow> [] | Inl e \<Rightarrow> [index]) items)"

definition urls_of :: "tweet \<Rightarrow> json option list" where
  "urls_of t = (case media_url t of Inr col \<Rightarrow> col | Inl e \<Rightarrow> [])"

section \<open>Helper lemmas\<close>

lemma ocr_loop_eq:
  "ocr_loop env items info errs = (info @ succeeded env items, errs @ failed env items)"
proof (induction items arbitrary: info errs)
  case Nil
  show ?case by (simp add: succeeded_def failed_def)
next
  case (Cons p items)
  obtain index img where p: "p = (index, img)" by (cases p)
  show ?case
    by (cases "ocr_item env img") (simp_all add: p Cons.IH succeeded_def failed_def)
qed

lemma replace_no_old: "old \<noteq> new \<Longrightarrow> old \<notin> set (replace old new s)"
  by (auto simp: replace_def)

lemma replace_length: "length (replace old new s) = length s"
  by (simp add: replace_def)

lemma media_loop_eq:
  "media_loop ts acc = Inr out \<Longrightarrow> out = acc @ concat (map urls_of ts)"
proof (induction ts arbitrary: acc)
  case Nil
  then show ?case by simp
next
  case (Cons t ts)
  show ?case
  proof (cases "media_url t")
    case (Inl e)
    with Cons.prems have "e = KeyError" and rest: "media_loop ts acc = Inr out"
      by (auto split: if_splits)
    from Cons.IH [OF rest] Inl show ?thesis by (simp add: urls_of_def)
  next
    case (Inr col)
    with Cons.prems have rest: "media_loop ts (acc @ col) = Inr out" by simp
    from Cons.IH [OF rest] Inr show ?thesis by (simp add: urls_of_def)
  qed
qed

lemma media_loop_not_KeyError: "media_loop ts acc \<noteq> Inl KeyError"
  by (induction ts arbitrary: acc) (auto split: sum.splits)

lemma column_media_url:
  assumes "recs \<noteq> []"
    and "map (\<lambda>r. map_of r ''media_url'') recs = map (\<lambda>u. Some (JStr u)) urls"
  shows "column ''media_url'' recs = Inr (map (\<lambda>u. Some (JStr u)) urls)"
proof -
  have "map (\<lambda>r. flat_value (map_of r ''media_url'')) recs
      = map flat_value (map (\<lambda>r. map_of r ''media_url'') recs)"
    by simp
  also have "\<dots> = map (\<lambda>u. Some (JStr u)) urls"
    unfolding assms(2) by simp
  finally have cells:
    "map (\<lambda>r. flat_value (map_of r ''media_url'')) recs = map (\<lambda>u. Some (JStr u)) urls" .
  from assms have "urls \<noteq> []" by auto
  then have "list_ex (\<lambda>c. c \<noteq> None) (map (\<lambda>u. Some (JStr u)) urls)"
    by (cases urls) simp_all
  with cells show ?thesis by (simp add: column_def)
qed

lemma column_empty: "column key [] = Inl KeyError"
  by (simp add: column_def)

lemma ocr_item_Inl:
  "ocr_item env img = Inl e \<longleftrightarrow>
     Image_open env (content img) = Inl e \<or>
     (\<exists>opened_image. Image_open env (content img) = Inr opened_image \<and>
        image_to_string env opened_image = Inl e)"
  by (auto simp: ocr_item_def split: sum.splits)

lemma pull_text_fetched:
  assumes "read_csv env = Inr images"
    and "series_apply (requests_get env) images = Inr image_requests"
  shows "pull_text env d =
     (case to_csv survey_data_path
             (frame_rows (succeeded env (enumerate 0 image_requests))) d of
        Inl e \<Rightarrow> (Some e, d)
      | Inr d' \<Rightarrow> (None, d'))"
  using assms by (simp add: pull_text_def ocr_loop_eq)

lemma pull_text_fetch_raises:
  assumes "read_csv env = Inr images"
    and "series_apply (requests_get env) images = Inl e"
  shows "pull_text env d = (Some e, d)"
  using assms by (simp add: pull_text_def)

lemma pull_tweets_scraped:
  assumes "scrape timeline = Inr cares_bot_tweets"
    and "media_loop cares_bot_tweets [] = Inr cares_bot"
  shows "pull_tweets timeline d =
     (case to_csv image_urls_path (series_rows cares_bot) d of
        Inl e \<Rightarrow> (Some e, d)
      | Inr d' \<Rightarrow> (None, d'))"
  using assms by (simp add: pull_tweets_def)

lemma pull_tweets_loop_raises:
  assumes "scrape timeline = Inr cares_bot_tweets"
    and "media_loop cares_bot_tweets [] = Inl e"
  shows "pull_tweets timeline d = (Some e, d)"
  using assms by (simp add: pull_tweets_def)

lemma pull_text_raised:
  assumes "fst (pull_text env d) = Some e"
  shows "read_csv env = Inl e \<or>
     (\<exists>images. read_csv env = Inr images \<and>
        series_apply (requests_get env) images = Inl e) \<or>
     (e = OSError \<and> \<not> writable d survey_data_path)"
  using assms
  by (auto simp: pull_text_def to_csv_def split: sum.splits prod.splits if_splits)

lemma pull_tweets_raised:
  assumes "fst (pull_tweets timeline d) = Some e"
  shows "scrape timeline = Inl e \<or>
     (\<exists>cares_bot_tweets. scrape timeline = Inr cares_bot_tweets \<and>
        media_loop cares_bot_tweets [] = Inl e) \<or>
     (e = OSError \<and> \<not> writable d image_urls_path)"
  using assms
  by (auto simp: pull_tweets_def to_csv_def split: sum.splits if_splits)

lemma to_csv_files:
  "to_csv path rows d = Inr d' \<Longrightarrow>
     files d' = (files d)(path := Some rows) \<and> writable d' = writable d"
  by (auto simp: to_csv_def split: if_splits)

lemma pull_text_completed:
  assumes "pull_text env d = (None, d')"
  shows "\<exists>images image_requests.
     read_csv env = Inr images \<and>
     series_apply (requests_get env) images = Inr image_requests \<and>
     files d' = (files d)(survey_data_path :=
        Some (frame_rows (succeeded env (enumerate 0 image_requests))))"
  using assms
  by (auto simp: pull_text_def ocr_loop_eq split: sum.splits dest: to_csv_files)

lemma pull_tweets_completed:
  assumes "pull_tweets timeline d = (None, d')"
  shows "\<exists>cares_bot_tweets.
     scrape timeline = Inr cares_bot_tweets \<and>
     files d' = (files d)(image_urls_path :=
        Some (series_rows (concat (map urls_of cares_bot_tweets))))"
  using assms
  by (auto simp: pull_tweets_def split: sum.splits dest!: to_csv_files media_loop_eq)

section \<open>Claims\<close>

text \<open>
  C9. For every image the OCR transformer recognises, the record stored is the
  recognised text with each line feed replaced by one space: it has the length of the
  recognised text, agrees with it at every position that is not a line feed, holds a
  space where the text has a line feed, and contains no line feed.
\<close>

theorem ocr_text_newlines_replaced:
  "ocr_item env img = Inr t \<Longrightarrow>
   (\<exists>opened_image s.
      Image_open env (content img) = Inr opened_image \<and>
      image_to_string env opened_image = Inr s \<and>
      t = replace (CHR 0x0A) CHR '' '' s \<and>
      length t = length s \<and>
      (\<forall>i < length s. t ! i = (if s ! i = CHR 0x0A then CHR '' '' else s ! i))) \<and>
   CHR 0x0A \<notin> set t"
  by (auto simp: ocr_item_def replace_def split: sum.splits)

theorem ocr_text_newlines_replaced_witness:
  "ocr_item \<lparr>read_csv = Inr [], requests_get = (\<lambda>u. Inl RequestException),
       Image_open = (\<lambda>b. Inr b), image_to_string = (\<lambda>i. Inr i)\<rparr>
     \<lparr>content = [CHR ''a'', CHR 0x0A, CHR ''b'']\<rparr> = Inr ''a b'' \<and>
   CHR 0x0A \<notin> set ''a b''"
  using ocr_text_newlines_replaced
    [of "\<lparr>read_csv = Inr [], requests_get = (\<lambda>u. Inl RequestException),
       Image_open = (\<lambda>b. Inr b), image_to_string = (\<lambda>i. Inr i)\<rparr>"
      "\<lparr>content = [CHR ''a'', CHR 0x0A, CHR ''b'']\<rparr>" "''a b''"]
  by (simp add: ocr_item_def replace_def)

text \<open>
  C10. In the link-extraction loop, a tweet whose \<^verbatim>\<open>entities.media\<close> list holds
  N \<ge> 1 items, each with a \<^verbatim>\<open>media_url\<close>, has all N URLs appended to the output
  Series in the order of the list: a tweet with several media items contributes
  several rows to the file.
\<close>


theorem all_media_urls_appended:
  assumes "entities t = Some e" and "media e = Some (MediaList recs)" and "recs \<noteq> []"
    and "map (\<lambda>r. map_of r ''media_url'') recs = map (\<lambda>u. Some (JStr u)) urls"
  shows "length urls = length recs \<and>
         media_loop (t # cares_bot_tweets) cares_bot =
           media_loop cares_bot_tweets (cares_bot @ map (\<lambda>u. Some (JStr u)) urls) \<and>
         media_loop [t] cares_bot = Inr (cares_bot @ map (\<lambda>u. Some (JStr u)) urls) \<and>
         length (series_rows (cares_bot @ map (\<lambda>u. Some (JStr u)) urls)) =
           length cares_bot + length recs"
proof -
  have len: "length urls = length recs"
    using arg_cong [OF assms(4), of length] by simp
  have "media_url t = Inr (map (\<lambda>u. Some (JStr u)) urls)"
    using assms(1,2) column_media_url [OF assms(3,4)]
    by (simp add: media_url_def json_normalize_def)
  then show ?thesis using len by (simp add: series_rows_def)
qed

theorem all_media_urls_appended_witness:
  "media_loop
     [\<lparr>entities = Some \<lparr>media = Some (MediaList
        [[(''id'', JNum 1), (''media_url'', JStr ''http://a'')],
         [(''media_url'', JStr ''http://b'')]])\<rparr>\<rparr>] [] =
   Inr [Some (JStr ''http://a''), Some (JStr ''http://b'')]"
  using all_media_urls_appended
    [of "\<lparr>entities = Some \<lparr>media = Some (MediaList
        [[(''id'', JNum 1), (''media_url'', JStr ''http://a'')],
         [(''media_url'', JStr ''http://b'')]])\<rparr>\<rparr>"
      "\<lparr>media = Some (MediaList
        [[(''id'', JNum 1), (''media_url'', JStr ''http://a'')],
         [(''media_url'', JStr ''http://b'')]])\<rparr>"
      "[[(''id'', JNum 1), (''media_url'', JStr ''http://a'')],
         [(''media_url'', JStr ''http://b'')]]"
      "[''http://a'', ''http://b'']" "[]" "[]"]
  by simp

text \<open>
  C2 (as stated: exactly the first item's URL). A tweet with two media items gives
  both URLs, not the first alone.
\<close>

theorem first_url_only_counterexample:
  "media_url
     \<lparr>entities = Some \<lparr>media = Some (MediaList
        [[(''media_url'', JStr ''http://a'')], [(''media_url'', JStr ''http://b'')]])\<rparr>\<rparr> =
     Inr [Some (JStr ''http://a''), Some (JStr ''http://b'')] \<and>
   media_url
     \<lparr>entities = Some \<lparr>media = Some (MediaList
        [[(''media_url'', JStr ''http://a'')], [(''media_url'', JStr ''http://b'')]])\<rparr>\<rparr> \<noteq>
     Inr [Some (JStr ''http://a'')]"
  by (simp add: media_url_def json_normalize_def column_def)

text \<open>
  C2, amended. The media-link extractor raises \<^verbatim>\<open>KeyError\<close> (the tweet is skipped)
  when the tweet has no attached media: the key \<^verbatim>\<open>entities\<close> or the key \<^verbatim>\<open>media\<close> is
  absent, or \<^verbatim>\<open>media\<close> is null or the empty list. For a tweet with N \<ge> 1 media
  items, each with a \<^verbatim>\<open>media_url\<close>, it returns the N URLs of the items in order,
  the first item's URL first.
\<close>

theorem media_url_extractor:
  "((entities t = None \<or>
     (\<exists>e. entities t = Some e \<and>
        (media e = None \<or> media e = Some MediaNull \<or> media e = Some (MediaList [])))) \<longrightarrow>
      media_url t = Inl KeyError \<and>
      media_loop (t # cares_bot_tweets) cares_bot = media_loop cares_bot_tweets cares_bot) \<and>
   (entities t = Some e \<and> media e = Some (MediaList (r # recs)) \<and>
    map (\<lambda>r. map_of r ''media_url'') (r # recs) = map (\<lambda>u. Some (JStr u)) urls \<longrightarrow>
      media_url t = Inr (map (\<lambda>u. Some (JStr u)) urls) \<and>
      length urls = Suc (length recs) \<and>
      map_of r ''media_url'' = Some (JStr (hd urls)))"
proof (intro conjI impI)
  assume zero: "entities t = None \<or>
     (\<exists>e. entities t = Some e \<and>
        (media e = None \<or> media e = Some MediaNull \<or> media e = Some (MediaList [])))"
  then show k: "media_url t = Inl KeyError"
    by (auto simp: media_url_def json_normalize_def column_empty)
  then show "media_loop (t # cares_bot_tweets) cares_bot = media_loop cares_bot_tweets cares_bot"
    by simp
next
  assume some: "entities t = Some e \<and> media e = Some (MediaList (r # recs)) \<and>
    map (\<lambda>r. map_of r ''media_url'') (r # recs) = map (\<lambda>u. Some (JStr u)) urls"
  then have cells:
    "map (\<lambda>r. map_of r ''media_url'') (r # recs) = map (\<lambda>u. Some (JStr u)) urls"
    by simp
  have "column ''media_url'' (r # recs) = Inr (map (\<lambda>u. Some (JStr u)) urls)"
    by (rule column_media_url [OF _ cells]) simp
  with some show "media_url t = Inr (map (\<lambda>u. Some (JStr u)) urls)"
    by (simp add: media_url_def json_normalize_def)
  show "length urls = Suc (length recs)"
    using arg_cong [OF cells, of length] by simp
  show "map_of r ''media_url'' = Some (JStr (hd urls))"
    using cells by (cases urls) auto
qed

theorem media_url_extractor_witness:
  "media_url \<lparr>entities = Some \<lparr>media = None\<rparr>\<rparr> = Inl KeyError \<and>
   media_url
     \<lparr>entities = Some \<lparr>media = Some (MediaList
        [[(''media_url'', JStr ''http://a'')], [(''media_url'', JStr ''http://b'')]])\<rparr>\<rparr> =
     Inr [Some (JStr ''http://a''), Some (JStr ''http://b'')]"
  using media_url_extractor
    [of "\<lparr>entities = Some \<lparr>media = None\<rparr>\<rparr>" "[]" "[]" "\<lparr>media = None\<rparr>" "[]" "[]" "[]"]
    media_url_extractor
    [of "\<lparr>entities = Some \<lparr>media = Some (MediaList
        [[(''media_url'', JStr ''http://a'')], [(''media_url'', JStr ''http://b'')]])\<rparr>\<rparr>"
      "[]" "[]"
      "\<lparr>media = Some (MediaList
        [[(''media_url'', JStr ''http://a'')], [(''media_url'', JStr ''http://b'')]])\<rparr>"
      "[(''media_url'', JStr ''http://a'')]" "[[(''media_url'', JStr ''http://b'')]]"
      "[''http://a'', ''http://b'']"]
  by simp

text \<open>
  C1 (as stated, for both pipelines). The link-extraction script keeps no list of
  failures, and a tweet contributes as many records as it has media URLs: one
  enumerated tweet with two media items gives two records, one enumerated tweet
  without media gives none.
\<close>

theorem one_outcome_per_item_counterexample:
  "media_loop
     [\<lparr>entities = Some \<lparr>media = Some (MediaList
        [[(''media_url'', JStr ''http://a'')], [(''media_url'', JStr ''http://b'')]])\<rparr>\<rparr>] [] =
     Inr [Some (JStr ''http://a''), Some (JStr ''http://b'')] \<and>
   length [Some (JStr ''http://a''), Some (JStr ''http://b'')] >
     length [\<lparr>entities = Some \<lparr>media = Some (MediaList
        [[(''media_url'', JStr ''http://a'')], [(''media_url'', JStr ''http://b'')]])\<rparr>\<rparr>] \<and>
   media_loop [\<lparr>entities = Some \<lparr>media = None\<rparr>\<rparr>] [] = Inr []"
  by (simp add: media_url_def json_normalize_def column_def)

text \<open>
  C1, amended. In the OCR script every enumerated response yields exactly one
  outcome: the number of texts appended plus the number of indices recorded in
  \<^verbatim>\<open>errors\<close> is the number of responses. In the link-extraction script no failure
  index is recorded; when the loop completes, the number of records appended is the
  sum over the tweets of the number of media URLs extracted (none for a skipped
  tweet).
\<close>

theorem record_counts:
  "length (fst (ocr_loop env (enumerate 0 image_requests) [] [])) +
   length (snd (ocr_loop env (enumerate 0 image_requests) [] [])) = length image_requests \<and>
   (media_loop cares_bot_tweets [] = Inr cares_bot \<longrightarrow>
      length cares_bot = sum_list (map (\<lambda>t. length (urls_of t)) cares_bot_tweets))"
proof
  have "length (succeeded env items) + length (failed env items) = length items" for items
  proof (induction items)
    case Nil
    show ?case by (simp add: succeeded_def failed_def)
  next
    case (Cons p items)
    obtain index img where "p = (index, img)" by (cases p)
    with Cons show ?case
      by (cases "ocr_item env img") (simp_all add: succeeded_def failed_def)
  qed
  from this [of "enumerate 0 image_requests"]
  show "length (fst (ocr_loop env (enumerate 0 image_requests) [] [])) +
   length (snd (ocr_loop env (enumerate 0 image_requests) [] [])) = length image_requests"
    by (simp add: ocr_loop_eq)
next
  show "media_loop cares_bot_tweets [] = Inr cares_bot \<longrightarrow>
      length cares_bot = sum_list (map (\<lambda>t. length (urls_of t)) cares_bot_tweets)"
  proof
    assume "media_loop cares_bot_tweets [] = Inr cares_bot"
    from media_loop_eq [OF this]
    show "length cares_bot = sum_list (map (\<lambda>t. length (urls_of t)) cares_bot_tweets)"
      by (simp add: length_concat comp_def)
  qed
qed

theorem record_counts_witness:
  "ocr_loop \<lparr>read_csv = Inr [], requests_get = (\<lambda>u. Inl RequestException),
       Image_open = (\<lambda>b. if b = ''png'' then Inr b else Inl UnidentifiedImageError),
       image_to_string = (\<lambda>i. Inr i)\<rparr>
     (enumerate 0 [\<lparr>content = ''png''\<rparr>, \<lparr>content = ''html''\<rparr>]) [] [] = ([''png''], [1]) \<and>
   media_loop
     [\<lparr>entities = Some \<lparr>media = None\<rparr>\<rparr>,
      \<lparr>entities = Some \<lparr>media = Some (MediaList [[(''media_url'', JStr ''http://a'')]])\<rparr>\<rparr>] [] =
     Inr [Some (JStr ''http://a'')]"
  using record_counts
    [of "\<lparr>read_csv = Inr [], requests_get = (\<lambda>u. Inl RequestException),
       Image_open = (\<lambda>b. if b = ''png'' then Inr b else Inl UnidentifiedImageError),
       image_to_string = (\<lambda>i. Inr i)\<rparr>"
      "[\<lparr>content = ''png''\<rparr>, \<lparr>content = ''html''\<rparr>]"
      "[\<lparr>entities = Some \<lparr>media = None\<rparr>\<rparr>,
      \<lparr>entities = Some \<lparr>media = Some (MediaList [[(''media_url'', JStr ''http://a'')]])\<rparr>\<rparr>]"
      "[Some (JStr ''http://a'')]"]
  by (simp add: ocr_item_def replace_def media_url_def json_normalize_def column_def)

text \<open>
  C3 (as stated: any fetch error is recovered per item). The images are fetched
  before the loop, outside the handler: when \<^verbatim>\<open>requests.get\<close> raises for the second
  of two URLs the script ends with that exception and writes no file.
\<close>

theorem fetch_error_counterexample:
  "fst (pull_text
     \<lparr>read_csv = Inr [''http://a'', ''http://b''],
      requests_get = (\<lambda>u. if u = ''http://a'' then Inr \<lparr>content = ''png''\<rparr>
                          else Inl RequestException),
      Image_open = (\<lambda>b. Inr b), image_to_string = (\<lambda>i. Inr i)\<rparr>
     \<lparr>files = (\<lambda>p. None), writable = (\<lambda>p. True)\<rparr>) = Some RequestException \<and>
   files (snd (pull_text
     \<lparr>read_csv = Inr [''http://a'', ''http://b''],
      requests_get = (\<lambda>u. if u = ''http://a'' then Inr \<lparr>content = ''png''\<rparr>
                          else Inl RequestException),
      Image_open = (\<lambda>b. Inr b), image_to_string = (\<lambda>i. Inr i)\<rparr>
     \<lparr>files = (\<lambda>p. None), writable = (\<lambda>p. True)\<rparr>)) survey_data_path = None"
  by (simp add: pull_text_def)

text \<open>
  C3, amended. For every fetched response, a payload that \<^verbatim>\<open>Image.open\<close> cannot
  decode (a non-image payload included) or a text recognition that raises makes the
  loop record the index of the item in \<^verbatim>\<open>errors\<close> and go on with the next item; once
  all fetches have returned, no such failure ends the run, which completes whenever
  the output path can be written. A fetch that raises is not recovered: the images
  are fetched before the loop and the exception ends the run with nothing written.
\<close>

theorem ocr_failures_recovered:
  "((Image_open env (content img) = Inl e \<or>
     (\<exists>opened_image. Image_open env (content img) = Inr opened_image \<and>
        image_to_string env opened_image = Inl e)) \<longrightarrow>
      ocr_loop env ((index, img) # rest) respondent_info errors =
        ocr_loop env rest respondent_info (errors @ [index])) \<and>
   (read_csv env = Inr images \<and>
    series_apply (requests_get env) images = Inr image_requests \<and>
    writable d survey_data_path \<longrightarrow>
      fst (pull_text env d) = None \<and>
      snd (ocr_loop env (enumerate 0 image_requests) [] []) =
        failed env (enumerate 0 image_requests)) \<and>
   (read_csv env = Inr images \<and> series_apply (requests_get env) images = Inl e \<longrightarrow>
      pull_text env d = (Some e, d))"
proof (intro conjI impI)
  assume "Image_open env (content img) = Inl e \<or>
     (\<exists>opened_image. Image_open env (content img) = Inr opened_image \<and>
        image_to_string env opened_image = Inl e)"
  then have "ocr_item env img = Inl e" by (simp add: ocr_item_Inl)
  then show "ocr_loop env ((index, img) # rest) respondent_info errors =
        ocr_loop env rest respondent_info (errors @ [index])"
    by simp
next
  assume a: "read_csv env = Inr images \<and>
    series_apply (requests_get env) images = Inr image_requests \<and>
    writable d survey_data_path"
  then show "fst (pull_text env d) = None"
    by (simp add: pull_text_fetched [of env images image_requests d] to_csv_def)
  show "snd (ocr_loop env (enumerate 0 image_requests) [] []) =
        failed env (enumerate 0 image_requests)"
    by (simp add: ocr_loop_eq)
next
  assume "read_csv env = Inr images \<and> series_apply (requests_get env) images = Inl e"
  then show "pull_text env d = (Some e, d)"
    by (simp add: pull_text_fetch_raises)
qed

theorem ocr_failures_recovered_witness:
  "ocr_loop
     \<lparr>read_csv = Inr [''http://a''], requests_get = (\<lambda>u. Inr \<lparr>content = ''<html>''\<rparr>),
      Image_open = (\<lambda>b. Inl UnidentifiedImageError), image_to_string = (\<lambda>i::unit. Inr [])\<rparr>
     [(0, \<lparr>content = ''<html>''\<rparr>)] [] [] = ([], [0]) \<and>
   fst (pull_text
     \<lparr>read_csv = Inr [''http://a''], requests_get = (\<lambda>u. Inr \<lparr>content = ''<html>''\<rparr>),
      Image_open = (\<lambda>b. Inl UnidentifiedImageError), image_to_string = (\<lambda>i::unit. Inr [])\<rparr>
     \<lparr>files = (\<lambda>p. None), writable = (\<lambda>p. True)\<rparr>) = None \<and>
   pull_text
     \<lparr>read_csv = Inr [''http://a''], requests_get = (\<lambda>u. Inl RequestException),
      Image_open = (\<lambda>b. Inl UnidentifiedImageError), image_to_string = (\<lambda>i::unit. Inr [])\<rparr>
     \<lparr>files = (\<lambda>p. None), writable = (\<lambda>p. True)\<rparr> =
     (Some RequestException, \<lparr>files = (\<lambda>p. None), writable = (\<lambda>p. True)\<rparr>)"
  using ocr_failures_recovered
    [of "\<lparr>read_csv = Inr [''http://a''], requests_get = (\<lambda>u. Inr \<lparr>content = ''<html>''\<rparr>),
      Image_open = (\<lambda>b. Inl UnidentifiedImageError), image_to_string = (\<lambda>i::unit. Inr [])\<rparr>"
      "\<lparr>content = ''<html>''\<rparr>" UnidentifiedImageError 0 "[]" "[]" "[]"
      "[''http://a'']" "[\<lparr>content = ''<html>''\<rparr>]"
      "\<lparr>files = (\<lambda>p. None), writable = (\<lambda>p. True)\<rparr>"]
    ocr_failures_recovered
    [of "\<lparr>read_csv = Inr [''http://a''], requests_get = (\<lambda>u. Inl RequestException),
      Image_open = (\<lambda>b. Inl UnidentifiedImageError), image_to_string = (\<lambda>i::unit. Inr [])\<rparr>"
      "\<lparr>content = ''<html>''\<rparr>" RequestException 0 "[]" "[]" "[]"
      "[''http://a'']" "[]"
      "\<lparr>files = (\<lambda>p. None), writable = (\<lambda>p. True)\<rparr>"]
  by simp

text \<open>
  C4 (as stated: every per-item failure, of any kind, is recovered). The handler of
  the link-extraction loop names \<^verbatim>\<open>KeyError\<close> alone. A tweet whose \<^verbatim>\<open>media\<close> value is
  neither a list nor null raises \<^verbatim>\<open>TypeError\<close>; the run ends there, although the
  enumeration succeeded and the path can be written, and no file is written.
\<close>

theorem uncaught_item_failure_counterexample:
  "fst (pull_tweets
     (Exhausted
        [\<lparr>entities = Some \<lparr>media = Some MediaNotList\<rparr>\<rparr>,
         \<lparr>entities = Some \<lparr>media = Some (MediaList [[(''media_url'', JStr ''http://a'')]])\<rparr>\<rparr>])
     \<lparr>files = (\<lambda>p. None), writable = (\<lambda>p. True)\<rparr>) = Some TypeError \<and>
   files (snd (pull_tweets
     (Exhausted
        [\<lparr>entities = Some \<lparr>media = Some MediaNotList\<rparr>\<rparr>,
         \<lparr>entities = Some \<lparr>media = Some (MediaList [[(''media_url'', JStr ''http://a'')]])\<rparr>\<rparr>])
     \<lparr>files = (\<lambda>p. None), writable = (\<lambda>p. True)\<rparr>)) image_urls_path = None"
  by (simp add: pull_tweets_def media_url_def json_normalize_def)

text \<open>
  C4, amended. In the OCR pipeline every exception of an item's transformation is
  recovered and the loop continues. In the link-extraction pipeline a \<^verbatim>\<open>KeyError\<close>
  of an item's transformation is recovered and the loop continues; any other
  exception of an item's transformation is not caught and aborts the run. Apart from
  that, only the enumeration (the timeline cursor; reading the URL file and fetching
  the images) and the final write can abort a run.
\<close>

theorem failure_policy:
  "(ocr_item env img = Inl e \<longrightarrow>
      ocr_loop env ((index, img) # rest) respondent_info errors =
        ocr_loop env rest respondent_info (errors @ [index])) \<and>
   (media_url t = Inl KeyError \<longrightarrow>
      media_loop (t # cares_bot_tweets) cares_bot = media_loop cares_bot_tweets cares_bot) \<and>
   (media_url t = Inl e \<and> e \<noteq> KeyError \<longrightarrow>
      media_loop (t # cares_bot_tweets) cares_bot = Inl e \<and>
      pull_tweets (Exhausted (t # cares_bot_tweets)) d = (Some e, d)) \<and>
   (fst (pull_text env d) = Some e \<longrightarrow>
      read_csv env = Inl e \<or>
      (\<exists>images. read_csv env = Inr images \<and>
         series_apply (requests_get env) images = Inl e) \<or>
      (e = OSError \<and> \<not> writable d survey_data_path)) \<and>
   (fst (pull_tweets timeline d) = Some e \<longrightarrow>
      scrape timeline = Inl e \<or>
      (\<exists>ts. scrape timeline = Inr ts \<and> media_loop ts [] = Inl e \<and> e \<noteq> KeyError) \<or>
      (e = OSError \<and> \<not> writable d image_urls_path))"
proof (intro conjI impI)
  assume "ocr_item env img = Inl e"
  then show "ocr_loop env ((index, img) # rest) respondent_info errors =
        ocr_loop env rest respondent_info (errors @ [index])"
    by simp
next
  assume "media_url t = Inl KeyError"
  then show "media_loop (t # cares_bot_tweets) cares_bot = media_loop cares_bot_tweets cares_bot"
    by simp
next
  assume a: "media_url t = Inl e \<and> e \<noteq> KeyError"
  then show l: "media_loop (t # cares_bot_tweets) cares_bot = Inl e" by simp
  from a have "media_loop (t # cares_bot_tweets) [] = Inl e" by simp
  then show "pull_tweets (Exhausted (t # cares_bot_tweets)) d = (Some e, d)"
    by (intro pull_tweets_loop_raises [where cares_bot_tweets = "t # cares_bot_tweets"]) simp_all
next
  assume "fst (pull_text env d) = Some e"
  then show "read_csv env = Inl e \<or>
      (\<exists>images. read_csv env = Inr images \<and>
         series_apply (requests_get env) images = Inl e) \<or>
      (e = OSError \<and> \<not> writable d survey_data_path)"
    by (rule pull_text_raised)
next
  assume "fst (pull_tweets timeline d) = Some e"
  from pull_tweets_raised [OF this] media_loop_not_KeyError
  show "scrape timeline = Inl e \<or>
      (\<exists>ts. scrape timeline = Inr ts \<and> media_loop ts [] = Inl e \<and> e \<noteq> KeyError) \<or>
      (e = OSError \<and> \<not> writable d image_urls_path)"
    by metis
qed

theorem failure_policy_witness:
  "media_loop
     [\<lparr>entities = Some \<lparr>media = Some MediaNotList\<rparr>\<rparr>,
      \<lparr>entities = Some \<lparr>media = None\<rparr>\<rparr>] [] = Inl TypeError \<and>
   pull_tweets
     (Exhausted [\<lparr>entities = Some \<lparr>media = Some MediaNotList\<rparr>\<rparr>,
                 \<lparr>entities = Some \<lparr>media = None\<rparr>\<rparr>])
     \<lparr>files = (\<lambda>p. None), writable = (\<lambda>p. True)\<rparr> =
     (Some TypeError, \<lparr>files = (\<lambda>p. None), writable = (\<lambda>p. True)\<rparr>) \<and>
   media_loop [\<lparr>entities = Some \<lparr>media = None\<rparr>\<rparr>] [Some (JStr ''http://a'')] =
     Inr [Some (JStr ''http://a'')] \<and>
   ocr_loop
     \<lparr>read_csv = Inl OSError, requests_get = (\<lambda>u. Inl RequestException),
      Image_open = (\<lambda>b. Inr b), image_to_string = (\<lambda>i. Inl TesseractError)\<rparr>
     [(4, \<lparr>content = ''png''\<rparr>)] [] [] = ([], [4]) \<and>
   fst (pull_text
     \<lparr>read_csv = Inl OSError, requests_get = (\<lambda>u. Inl RequestException),
      Image_open = (\<lambda>b. Inr b), image_to_string = (\<lambda>i. Inl TesseractError)\<rparr>
     \<lparr>files = (\<lambda>p. None), writable = (\<lambda>p. True)\<rparr>) = Some OSError \<and>
   fst (pull_tweets (Raises [] TweepError)
     \<lparr>files = (\<lambda>p. None), writable = (\<lambda>p. True)\<rparr>) = Some TweepError"
  using failure_policy
    [of "\<lparr>read_csv = Inl OSError, requests_get = (\<lambda>u. Inl RequestException),
      Image_open = (\<lambda>b. Inr b), image_to_string = (\<lambda>i. Inl TesseractError)\<rparr>"
      "\<lparr>content = ''png''\<rparr>" TesseractError 4 "[]" "[]" "[]"
      "\<lparr>entities = Some \<lparr>media = None\<rparr>\<rparr>" "[]" "[Some (JStr ''http://a'')]"
      "\<lparr>files = (\<lambda>p. None), writable = (\<lambda>p. True)\<rparr>" "Exhausted []"]
    failure_policy
    [of "\<lparr>read_csv = Inl OSError, requests_get = (\<lambda>u. Inl RequestException),
      Image_open = (\<lambda>b. Inr b), image_to_string = (\<lambda>i. Inl TesseractError)\<rparr>"
      "\<lparr>content = ''png''\<rparr>" TypeError 4 "[]" "[]" "[]"
      "\<lparr>entities = Some \<lparr>media = Some MediaNotList\<rparr>\<rparr>"
      "[\<lparr>entities = Some \<lparr>media = None\<rparr>\<rparr>]" "[]"
      "\<lparr>files = (\<lambda>p. None), writable = (\<lambda>p. True)\<rparr>" "Exhausted []"]
    failure_policy
    [of "\<lparr>read_csv = Inl OSError, requests_get = (\<lambda>u. Inl RequestException),
      Image_open = (\<lambda>b. Inr b), image_to_string = (\<lambda>i. Inl TesseractError)\<rparr>"
      "\<lparr>content = ''png''\<rparr>" OSError 4 "[]" "[]" "[]"
      "\<lparr>entities = Some \<lparr>media = None\<rparr>\<rparr>" "[]" "[]"
      "\<lparr>files = (\<lambda>p. None), writable = (\<lambda>p. True)\<rparr>" "Exhausted []"]
    failure_policy
    [of "\<lparr>read_csv = Inl OSError, requests_get = (\<lambda>u. Inl RequestException),
      Image_open = (\<lambda>b. Inr b), image_to_string = (\<lambda>i. Inl TesseractError)\<rparr>"
      "\<lparr>content = ''png''\<rparr>" TweepError 4 "[]" "[]" "[]"
      "\<lparr>entities = Some \<lparr>media = None\<rparr>\<rparr>" "[]" "[]"
      "\<lparr>files = (\<lambda>p. None), writable = (\<lambda>p. True)\<rparr>" "Raises [] TweepError"]
  by (simp add: ocr_item_def media_url_def json_normalize_def pull_text_def pull_tweets_def)

text \<open>
  C5. When the enumeration fails (the timeline cursor raises, or the URL file cannot
  be read), the run ends with that exception before the sink writer is reached: the
  files are what they were before the run, so no output file is produced and nothing
  partial is written.
\<close>

theorem enumeration_failure_writes_nothing:
  "(scrape timeline = Inl e \<longrightarrow> pull_tweets timeline d = (Some e, d)) \<and>
   (read_csv env = Inl e \<longrightarrow> pull_text env d = (Some e, d))"
  by (simp add: pull_tweets_def pull_text_def)

theorem enumeration_failure_writes_nothing_witness:
  "pull_tweets
     (Raises [\<lparr>entities = Some \<lparr>media = Some (MediaList [[(''media_url'', JStr ''http://a'')]])\<rparr>\<rparr>]
        TweepError)
     \<lparr>files = (\<lambda>p. None), writable = (\<lambda>p. True)\<rparr> =
     (Some TweepError, \<lparr>files = (\<lambda>p. None), writable = (\<lambda>p. True)\<rparr>) \<and>
   pull_text
     \<lparr>read_csv = Inl OSError, requests_get = (\<lambda>u. Inr \<lparr>content = u\<rparr>),
      Image_open = (\<lambda>b. Inr b), image_to_string = (\<lambda>i. Inr i)\<rparr>
     \<lparr>files = (\<lambda>p. None), writable = (\<lambda>p. True)\<rparr> =
     (Some OSError, \<lparr>files = (\<lambda>p. None), writable = (\<lambda>p. True)\<rparr>)"
  using enumeration_failure_writes_nothing
    [of "Raises [\<lparr>entities = Some \<lparr>media = Some (MediaList [[(''media_url'', JStr ''http://a'')]])\<rparr>\<rparr>]
        TweepError" TweepError "\<lparr>files = (\<lambda>p. None), writable = (\<lambda>p. True)\<rparr>"
      "\<lparr>read_csv = Inl TweepError, requests_get = (\<lambda>u. Inr \<lparr>content = u\<rparr>),
      Image_open = (\<lambda>b. Inr b), image_to_string = (\<lambda>i. Inr i)\<rparr>"]
    enumeration_failure_writes_nothing
    [of "Exhausted []" OSError "\<lparr>files = (\<lambda>p. None), writable = (\<lambda>p. True)\<rparr>"
      "\<lparr>read_csv = Inl OSError, requests_get = (\<lambda>u. Inr \<lparr>content = u\<rparr>),
      Image_open = (\<lambda>b. Inr b), image_to_string = (\<lambda>i. Inr i)\<rparr>"]
  by simp

text \<open>
  C6. When five responses are enumerated and the items at positions 1 and 3 fail,
  the loop ends with exactly the three texts of positions 0, 2 and 4, in that order,
  and with \<^verbatim>\<open>errors = [1, 3]\<close>; the frame handed to the writer has these three rows
  and no row for a failed position, and a run that fetched these five responses
  writes exactly these rows.
\<close>

theorem five_items_two_failures:
  assumes "ocr_item env r0 = Inr t0" and "ocr_item env r1 = Inl e1"
    and "ocr_item env r2 = Inr t2" and "ocr_item env r3 = Inl e3"
    and "ocr_item env r4 = Inr t4"
  shows "ocr_loop env (enumerate 0 [r0, r1, r2, r3, r4]) [] [] = ([t0, t2, t4], [1, 3]) \<and>
         frame_rows (fst (ocr_loop env (enumerate 0 [r0, r1, r2, r3, r4]) [] [])) =
           [[Txt t0], [Txt t2], [Txt t4]] \<and>
         (read_csv env = Inr images \<and>
          series_apply (requests_get env) images = Inr [r0, r1, r2, r3, r4] \<and>
          writable d survey_data_path \<longrightarrow>
            pull_text env d =
              (None, d\<lparr>files := (files d)(survey_data_path :=
                         Some [[Txt t0], [Txt t2], [Txt t4]])\<rparr>))"
proof -
  have loop: "ocr_loop env (enumerate 0 [r0, r1, r2, r3, r4]) [] [] = ([t0, t2, t4], [1, 3])"
    using assms by (simp add: numeral_eq_Suc)
  then have rows: "frame_rows (fst (ocr_loop env (enumerate 0 [r0, r1, r2, r3, r4]) [] [])) =
           [[Txt t0], [Txt t2], [Txt t4]]"
    by (simp add: frame_rows_def)
  have "pull_text env d =
              (None, d\<lparr>files := (files d)(survey_data_path :=
                         Some [[Txt t0], [Txt t2], [Txt t4]])\<rparr>)"
    if "read_csv env = Inr images"
      and "series_apply (requests_get env) images = Inr [r0, r1, r2, r3, r4]"
      and "writable d survey_data_path"
    using that loop by (simp add: pull_text_def to_csv_def frame_rows_def)
  with loop rows show ?thesis by blast
qed

theorem five_items_two_failures_witness:
  "ocr_loop
     \<lparr>read_csv = Inr [''u0'', ''u1'', ''u2'', ''u3'', ''u4''],
      requests_get = (\<lambda>u. Inr \<lparr>content = u\<rparr>),
      Image_open = (\<lambda>b. if b = ''u1'' then Inl UnidentifiedImageError else Inr b),
      image_to_string = (\<lambda>i. if i = ''u3'' then Inl TesseractError else Inr i)\<rparr>
     (enumerate 0 [\<lparr>content = ''u0''\<rparr>, \<lparr>content = ''u1''\<rparr>, \<lparr>content = ''u2''\<rparr>,
        \<lparr>content = ''u3''\<rparr>, \<lparr>content = ''u4''\<rparr>]) [] [] =
     ([''u0'', ''u2'', ''u4''], [1, 3]) \<and>
   files (snd (pull_text
     \<lparr>read_csv = Inr [''u0'', ''u1'', ''u2'', ''u3'', ''u4''],
      requests_get = (\<lambda>u. Inr \<lparr>content = u\<rparr>),
      Image_open = (\<lambda>b. if b = ''u1'' then Inl UnidentifiedImageError else Inr b),
      image_to_string = (\<lambda>i. if i = ''u3'' then Inl TesseractError else Inr i)\<rparr>
     \<lparr>files = (\<lambda>p. None), writable = (\<lambda>p. True)\<rparr>)) survey_data_path =
     Some [[Txt ''u0''], [Txt ''u2''], [Txt ''u4'']]"
proof -
  let ?env = "\<lparr>read_csv = Inr [''u0'', ''u1'', ''u2'', ''u3'', ''u4''],
      requests_get = (\<lambda>u. Inr \<lparr>content = u\<rparr>),
      Image_open = (\<lambda>b. if b = ''u1'' then Inl UnidentifiedImageError else Inr b),
      image_to_string = (\<lambda>i. if i = ''u3'' then Inl TesseractError else Inr i)\<rparr>"
  have 0: "ocr_item ?env \<lparr>content = ''u0''\<rparr> = Inr ''u0''"
    and 1: "ocr_item ?env \<lparr>content = ''u1''\<rparr> = Inl UnidentifiedImageError"
    and 2: "ocr_item ?env \<lparr>content = ''u2''\<rparr> = Inr ''u2''"
    and 3: "ocr_item ?env \<lparr>content = ''u3''\<rparr> = Inl TesseractError"
    and 4: "ocr_item ?env \<lparr>content = ''u4''\<rparr> = Inr ''u4''"
    by (simp_all add: ocr_item_def replace_def)
  from five_items_two_failures [OF 0 1 2 3 4,
      of "[''u0'', ''u1'', ''u2'', ''u3'', ''u4'']" "\<lparr>files = (\<lambda>p. None), writable = (\<lambda>p. True)\<rparr>"]
  show ?thesis by simp
qed

text \<open>
  C7 (as stated: a single column, one row per successfully extracted post). The
  link-extraction script writes the Series with its index, and one row per media
  URL: one tweet with two media items gives a file of two rows of two cells each.
\<close>

theorem one_row_per_post_counterexample:
  "files (snd (pull_tweets
     (Exhausted
        [\<lparr>entities = Some \<lparr>media = Some (MediaList
           [[(''media_url'', JStr ''http://a'')], [(''media_url'', JStr ''http://b'')]])\<rparr>\<rparr>])
     \<lparr>files = (\<lambda>p. None), writable = (\<lambda>p. True)\<rparr>)) image_urls_path =
   Some [[Idx 0, Val (Some (JStr ''http://a''))], [Idx 1, Val (Some (JStr ''http://b''))]]"
  by (simp add: pull_tweets_def media_url_def json_normalize_def column_def to_csv_def
      series_rows_def)

text \<open>
  C7, amended. A run that completes replaces the file at its output path, whatever
  was there, and leaves every other file as it was. The OCR run writes a
  single-column table with one row per successfully processed image, holding its
  text, in enumeration order. The link-extraction run writes one row per extracted
  media URL, in order (a post with N media items contributes N rows, a skipped post
  none), each row holding the position of the URL in the output and the URL.
\<close>

theorem output_files:
  "(pull_text env d = (None, d') \<longrightarrow>
      (\<exists>images image_requests.
         read_csv env = Inr images \<and>
         series_apply (requests_get env) images = Inr image_requests \<and>
         files d' = (files d)(survey_data_path :=
           Some (map (\<lambda>s. [Txt s]) (succeeded env (enumerate 0 image_requests)))))) \<and>
   (pull_tweets timeline d = (None, d'') \<longrightarrow>
      (\<exists>cares_bot_tweets.
         scrape timeline = Inr cares_bot_tweets \<and>
         files d'' = (files d)(image_urls_path :=
           Some (map (\<lambda>(i, v). [Idx i, Val v])
                  (enumerate 0 (concat (map urls_of cares_bot_tweets)))))))"
proof (intro conjI impI)
  assume "pull_text env d = (None, d')"
  from pull_text_completed [OF this]
  show "\<exists>images image_requests.
         read_csv env = Inr images \<and>
         series_apply (requests_get env) images = Inr image_requests \<and>
         files d' = (files d)(survey_data_path :=
           Some (map (\<lambda>s. [Txt s]) (succeeded env (enumerate 0 image_requests))))"
    by (simp add: frame_rows_def)
next
  assume "pull_tweets timeline d = (None, d'')"
  from pull_tweets_completed [OF this]
  show "\<exists>cares_bot_tweets.
         scrape timeline = Inr cares_bot_tweets \<and>
         files d'' = (files d)(image_urls_path :=
           Some (map (\<lambda>(i, v). [Idx i, Val v])
                  (enumerate 0 (concat (map urls_of cares_bot_tweets)))))"
    by (simp add: series_rows_def)
qed

theorem output_files_witness:
  "files (snd (pull_text
     \<lparr>read_csv = Inr [''png'', ''html''], requests_get = (\<lambda>u. Inr \<lparr>content = u\<rparr>),
      Image_open = (\<lambda>b. if b = ''png'' then Inr b else Inl UnidentifiedImageError),
      image_to_string = (\<lambda>i. Inr i)\<rparr>
     \<lparr>files = (\<lambda>p. Some [[Txt ''old'']]), writable = (\<lambda>p. True)\<rparr>)) survey_data_path =
     Some [[Txt ''png'']] \<and>
   files (snd (pull_tweets
     (Exhausted
        [\<lparr>entities = Some \<lparr>media = None\<rparr>\<rparr>,
         \<lparr>entities = Some \<lparr>media = Some (MediaList [[(''media_url'', JStr ''http://a'')]])\<rparr>\<rparr>])
     \<lparr>files = (\<lambda>p. Some [[Txt ''old'']]), writable = (\<lambda>p. True)\<rparr>)) image_urls_path =
     Some [[Idx 0, Val (Some (JStr ''http://a''))]]"
proof -
  let ?env = "\<lparr>read_csv = Inr [''png'', ''html''], requests_get = (\<lambda>u. Inr \<lparr>content = u\<rparr>),
      Image_open = (\<lambda>b. if b = ''png'' then Inr b else Inl UnidentifiedImageError),
      image_to_string = (\<lambda>i. Inr i)\<rparr>"
  let ?d = "\<lparr>files = (\<lambda>p. Some [[Txt ''old'']]), writable = (\<lambda>p. True)\<rparr>"
  let ?tl = "Exhausted
        [\<lparr>entities = Some \<lparr>media = None\<rparr>\<rparr>,
         \<lparr>entities = Some \<lparr>media = Some (MediaList [[(''media_url'', JStr ''http://a'')]])\<rparr>\<rparr>]"
  have t: "pull_text ?env ?d = (None, snd (pull_text ?env ?d))"
    by (simp add: pull_text_def ocr_item_def replace_def to_csv_def)
  have w: "pull_tweets ?tl ?d = (None, snd (pull_tweets ?tl ?d))"
    by (simp add: pull_tweets_def media_url_def json_normalize_def column_def to_csv_def)
  from output_files [of ?env ?d "snd (pull_text ?env ?d)" ?tl "snd (pull_tweets ?tl ?d)"] t w
  show ?thesis
    by (simp add: succeeded_def urls_of_def ocr_item_def replace_def media_url_def
        json_normalize_def column_def)
qed

text \<open>
  C8. When the enumeration yields no item, the sink writer still runs: with a path
  that can be written, either script completes without an exception and leaves an
  output file with no data row.
\<close>

theorem empty_enumeration_writes_empty_file:
  "(scrape timeline = Inr [] \<and> writable d image_urls_path \<longrightarrow>
      pull_tweets timeline d = (None, d\<lparr>files := (files d)(image_urls_path := Some [])\<rparr>)) \<and>
   (read_csv env = Inr [] \<and> writable d survey_data_path \<longrightarrow>
      pull_text env d = (None, d\<lparr>files := (files d)(survey_data_path := Some [])\<rparr>))"
  by (simp add: pull_tweets_def pull_text_def to_csv_def series_rows_def frame_rows_def)

theorem empty_enumeration_writes_empty_file_witness:
  "pull_tweets (Exhausted []) \<lparr>files = (\<lambda>p. None), writable = (\<lambda>p. True)\<rparr> =
     (None, \<lparr>files = (\<lambda>p. None)(image_urls_path := Some []), writable = (\<lambda>p. True)\<rparr>) \<and>
   pull_text
     \<lparr>read_csv = Inr [], requests_get = (\<lambda>u. Inr \<lparr>content = u\<rparr>),
      Image_open = (\<lambda>b. Inr b), image_to_string = (\<lambda>i. Inr i)\<rparr>
     \<lparr>files = (\<lambda>p. None), writable = (\<lambda>p. True)\<rparr> =
     (None, \<lparr>files = (\<lambda>p. None)(survey_data_path := Some []), writable = (\<lambda>p. True)\<rparr>)"
  using empty_enumeration_writes_empty_file
    [of "Exhausted []" "\<lparr>files = (\<lambda>p. None), writable = (\<lambda>p. True)\<rparr>"
      "\<lparr>read_csv = Inr [], requests_get = (\<lambda>u. Inr \<lparr>content = u\<rparr>),
      Image_open = (\<lambda>b. Inr b), image_to_string = (\<lambda>i. Inr i)\<rparr>"]
  by simp

end
